theory Spec2Isabelle
  imports Main "HOL-Library.Signed_Division"
begin

text \<open>
  A model of the CRL updater of \<^verbatim>\<open>crl/updater/updater.go\<close>: the constructor
  \<^verbatim>\<open>NewUpdater\<close>, the shard boundary computation \<^verbatim>\<open>getShardBoundaries\<close>, the
  single-shard pipeline \<^verbatim>\<open>tickShard\<close> and the result loop of \<^verbatim>\<open>tickIssuer\<close>.
  All definitions come first; the lemmas and the theorems about them follow.
\<close>

section \<open>Go integers, durations and times\<close>

text \<open>
  Go's \<open>int\<close> and \<open>int64\<close> (and so \<open>time.Duration\<close>, an \<open>int64\<close> count of
  nanoseconds) are 64-bit two's complement integers: \<open>+\<close>, \<open>-\<close> and \<open>*\<close> wrap around,
  \<open>/\<close> and \<open>%\<close> truncate towards zero and panic on a zero divisor. They are modelled as
  \<open>int\<close> with the wrap-around written out.
\<close>

definition wrap64 :: "int \<Rightarrow> int" where
  "wrap64 x = (x + 2 ^ 63) mod 2 ^ 64 - 2 ^ 63"

definition is_int64 :: "int \<Rightarrow> bool" where
  "is_int64 x \<longleftrightarrow> - (2 ^ 63) \<le> x \<and> x < 2 ^ 63"

definition add64 :: "int \<Rightarrow> int \<Rightarrow> int" where
  "add64 a b = wrap64 (a + b)"

definition sub64 :: "int \<Rightarrow> int \<Rightarrow> int" where
  "sub64 a b = wrap64 (a - b)"

definition mul64 :: "int \<Rightarrow> int \<Rightarrow> int" where
  "mul64 a b = wrap64 (a * b)"

definition neg64 :: "int \<Rightarrow> int" where
  "neg64 a = wrap64 (- a)"

text \<open>Quotient and remainder for a divisor already checked to be non-zero.\<close>

definition div64 :: "int \<Rightarrow> int \<Rightarrow> int" where
  "div64 a b = wrap64 (a sdiv b)"

definition rem64 :: "int \<Rightarrow> int \<Rightarrow> int" where
  "rem64 a b = a smod b"

type_synonym duration = int

definition maxDuration :: duration where
  "maxDuration = 2 ^ 63 - 1"

definition minDuration :: duration where
  "minDuration = - (2 ^ 63)"

definition Hour :: duration where
  "Hour = 3600000000000"

text \<open>
  A \<open>time.Time\<close> is an instant with nanosecond precision; its zero value \<open>time.Time{}\<close> is
  January 1, year 1, 00:00:00 UTC. The model is the count of nanoseconds since that zero
  instant. (Go keeps the seconds in an \<open>int64\<close>, which reaches hundreds of billions of years
  either way; that outer limit is left out. The optional monotonic reading is left out too:
  \<open>time.Time{}\<close> carries none, so \<open>Sub\<close> against it uses the wall clock, and the two sides of
  the only \<open>Before\<close> derive from the same \<open>atTime\<close> by \<open>Add\<close>, which moves both readings alike.)

  \<open>t.Add(d)\<close> is exact. \<open>t.Sub(u)\<close> is a \<open>Duration\<close>, so it saturates: "If the result
  exceeds the maximum (or minimum) value that can be stored in a Duration, the maximum (or
  minimum) duration will be returned." \<open>t.UnixNano()\<close> counts from January 1, 1970 UTC,
  62135596800 seconds after the zero instant, in a wrapping \<open>int64\<close>.
\<close>

type_synonym time = int

definition time_zero :: time where
  "time_zero = 0"

definition time_Add :: "time \<Rightarrow> duration \<Rightarrow> time" where
  "time_Add t d = t + d"

definition time_Sub :: "time \<Rightarrow> time \<Rightarrow> duration" where
  "time_Sub t u =
     (let d = t - u
      in if maxDuration < d then maxDuration
         else if d < minDuration then minDuration
         else d)"

definition time_Before :: "time \<Rightarrow> time \<Rightarrow> bool" where
  "time_Before t u \<longleftrightarrow> t < u"

definition unixToInternal :: int where
  "unixToInternal = 62135596800"

definition time_UnixNano :: "time \<Rightarrow> int" where
  "time_UnixNano t = wrap64 (t - unixToInternal * 1000000000)"

section \<open>The updater and its constructor\<close>

text \<open>
  The fields of \<open>crlUpdater\<close> that the computations read. An issuer certificate is
  represented by what the updater uses of it: its \<open>NameID()\<close> and its subject common name.
  The three RPC clients, the metrics and the logger are modelled by their effects, further
  down.
\<close>

type_synonym issuerNameID = int

record crlUpdater =
  issuers :: "issuerNameID \<rightharpoonup> string"
  numShards :: int
  lookbackPeriod :: duration
  lookforwardPeriod :: duration
  updatePeriod :: duration
  updateOffset :: duration
  maxParallelism :: int

datatype config_error =
    BadNumShards int
  | BadUpdatePeriod duration
  | BadUpdateOffset duration duration

definition NewUpdater ::
  "(issuerNameID \<times> string) list \<Rightarrow> int \<Rightarrow> duration \<Rightarrow> duration \<Rightarrow> duration \<Rightarrow> int
     \<Rightarrow> config_error + crlUpdater" where
  "NewUpdater issuerCerts nShards certLifetime updPeriod updOffset maxPar =
     (let issuersByNameID = foldl (\<lambda>m (nameID, cn). m(nameID \<mapsto> cn)) Map.empty issuerCerts
      in if nShards < 1 then Inl (BadNumShards nShards)
         else if updPeriod \<ge> 7 * 24 * Hour then Inl (BadUpdatePeriod updPeriod)
         else if updOffset \<ge> updPeriod then Inl (BadUpdateOffset updOffset updPeriod)
         else
           let lookback = mul64 4 updPeriod;
               tentativeShardWidth = div64 (add64 lookback certLifetime) nShards;
               lookforward0 = add64 certLifetime (mul64 4 tentativeShardWidth);
               window = add64 lookback lookforward0;
               offset = rem64 window nShards;
               lookforward =
                 (if offset \<noteq> 0 then add64 lookforward0 (sub64 nShards offset)
                  else lookforward0);
               maxPar' = (if maxPar \<le> 0 then 1 else maxPar)
           in Inr \<lparr> issuers = issuersByNameID,
                    numShards = nShards,
                    lookbackPeriod = lookback,
                    lookforwardPeriod = lookforward,
                    updatePeriod = updPeriod,
                    updateOffset = updOffset,
                    maxParallelism = maxPar' \<rparr>)"

section \<open>Shard boundaries\<close>

text \<open>
  The local variables of \<open>getShardBoundaries\<close>, one definition each, in the order of
  the source. The two remainders and the quotient panic on a zero divisor; the function
  itself checks for that before it uses them.
\<close>

datatype panic = DivideByZero | NilPointer

definition windowWidth :: "crlUpdater \<Rightarrow> duration" where
  "windowWidth cu = add64 (lookbackPeriod cu) (lookforwardPeriod cu)"

definition atTimeOffset :: "crlUpdater \<Rightarrow> time \<Rightarrow> duration" where
  "atTimeOffset cu atTime = rem64 (time_Sub atTime time_zero) (windowWidth cu)"

definition zeroStart :: "crlUpdater \<Rightarrow> time \<Rightarrow> time" where
  "zeroStart cu atTime = time_Add atTime (neg64 (atTimeOffset cu atTime))"

definition shardWidth :: "crlUpdater \<Rightarrow> duration" where
  "shardWidth cu = div64 (windowWidth cu) (numShards cu)"

definition getShardBoundaries :: "crlUpdater \<Rightarrow> time \<Rightarrow> int \<Rightarrow> panic + (time \<times> time)" where
  "getShardBoundaries cu atTime shardIdx0 =
     (if numShards cu = 0 then Inl DivideByZero
      else
        let shardIdx = rem64 shardIdx0 (numShards cu)
        in if windowWidth cu = 0 then Inl DivideByZero
           else
             let shardOffset = mul64 shardIdx (shardWidth cu);
                 shardStart = time_Add (zeroStart cu atTime) shardOffset;
                 shardEnd = time_Add shardStart (shardWidth cu)
             in if time_Before shardEnd (time_Add atTime (neg64 (lookbackPeriod cu)))
                then Inr (time_Add shardStart (windowWidth cu),
                          time_Add shardEnd (windowWidth cu))
                else Inr (shardStart, shardEnd))"

text \<open>
  A valid configuration, as the data model gives it: at least one shard, a positive
  certificate lifetime, an update period under seven days and an offset within the period;
  every argument an \<open>int64\<close>.
\<close>

definition valid_config :: "int \<Rightarrow> duration \<Rightarrow> duration \<Rightarrow> duration \<Rightarrow> bool" where
  "valid_config nShards certLifetime updPeriod updOffset \<longleftrightarrow>
     1 \<le> nShards \<and> is_int64 nShards \<and>
     0 < certLifetime \<and> is_int64 certLifetime \<and>
     0 \<le> updOffset \<and> updOffset < updPeriod \<and> updPeriod < 7 * 24 * Hour"

text \<open>
  The window arithmetic stays within \<open>int64\<close>: every sum, product, quotient and
  difference that \<open>NewUpdater\<close> computes on the way to \<open>lookforwardPeriod\<close>, and the
  sum \<open>lookbackPeriod + lookforwardPeriod\<close> that \<open>getShardBoundaries\<close> computes from the
  result, taken as plain integers, is an \<open>int64\<close>. The steps are those of the source, in
  its order and under its names.
\<close>

definition window_in_int64 :: "int \<Rightarrow> duration \<Rightarrow> duration \<Rightarrow> bool" where
  "window_in_int64 nShards certLifetime updPeriod \<longleftrightarrow>
     (let lookback = 4 * updPeriod;
          tentativeShardWidth = (lookback + certLifetime) sdiv nShards;
          lookforward0 = certLifetime + 4 * tentativeShardWidth;
          window = lookback + lookforward0;
          offset = window smod nShards;
          lookforward =
            (if offset \<noteq> 0 then lookforward0 + (nShards - offset) else lookforward0)
      in is_int64 lookback \<and>
         is_int64 (lookback + certLifetime) \<and>
         is_int64 tentativeShardWidth \<and>
         is_int64 (4 * tentativeShardWidth) \<and>
         is_int64 lookforward0 \<and>
         is_int64 window \<and>
         is_int64 (nShards - offset) \<and>
         is_int64 lookforward \<and>
         is_int64 (lookback + lookforward))"

text \<open>
  The contract of the boundary calculator in the words of the documentation, for
  comparison with the code: the timeline is cut into chunks of one shard width starting at
  the zero instant, numbered cyclically, and the shard is the leftmost (earliest) chunk
  with the given number that has any overlap with the window
  \<open>[atTime - lookbackPeriod, atTime + lookforwardPeriod)\<close>. The chunk that contains the
  left edge of the window is the first one that overlaps it. Plain integers, no
  wrap-around.
\<close>

definition spec_leftmostChunk :: "crlUpdater \<Rightarrow> time \<Rightarrow> int \<Rightarrow> time \<times> time" where
  "spec_leftmostChunk cu atTime shardIdx0 =
     (let width = (lookbackPeriod cu + lookforwardPeriod cu) div numShards cu;
          first = (atTime - lookbackPeriod cu) div width;
          k = first + (shardIdx0 - first) mod numShards cu
      in (k * width, (k + 1) * width))"

text \<open>
  Two half-open intervals overlap when some instant lies in both.
\<close>

definition intervals_overlap :: "time \<times> time \<Rightarrow> time \<times> time \<Rightarrow> bool" where
  "intervals_overlap a b \<longleftrightarrow> max (fst a) (fst b) < min (snd a) (snd b)"

section \<open>Errors\<close>

text \<open>
  An error is either one that a collaborator returned or \<open>fmt.Errorf("<prefix>: %w", err)\<close>,
  which keeps its cause. \<open>io.EOF\<close> is not among them: the end of a stream is modelled
  apart. \<open>fmt_d\<close> is the verb \<open>%d\<close>.
\<close>

datatype error = External string | Wrapped string error

fun error_string :: "error \<Rightarrow> string" where
  "error_string (External s) = s"
| "error_string (Wrapped prefix cause) = prefix @ '': '' @ error_string cause"

definition digit_char :: "nat \<Rightarrow> char" where
  "digit_char d = ''0123456789'' ! d"

fun fmt_nat :: "nat \<Rightarrow> string" where
  "fmt_nat n = (if n < 10 then [digit_char n] else fmt_nat (n div 10) @ [digit_char (n mod 10)])"

definition fmt_d :: "int \<Rightarrow> string" where
  "fmt_d i = (if i < 0 then CHR ''-'' # fmt_nat (nat (- i)) else fmt_nat (nat i))"

datatype 'a outcome = Return 'a | Panic panic

section \<open>The shard pipeline\<close>

text \<open>
  \<open>tickShard\<close> talks to three collaborators over gRPC streams. What it does to them, to
  the log and to the metrics is recorded as a trace of events, in the order of the calls;
  a call is recorded when it is made, whether or not it then fails. (\<open>Recv\<close> calls are not
  recorded; what they return is the script below.)
\<close>

datatype 'e ca_request = CA_Metadata int int int | CA_Entry 'e

datatype cs_request = CS_Metadata int int int | CS_CrlChunk string

datatype 'e event =
    SA_GetRevokedCerts int int int int
  | CA_GenerateCRL
  | CA_Send "'e ca_request"
  | CA_CloseSend
  | CS_UploadCRL
  | CS_Send cs_request
  | CS_CloseAndRecv
  | Log_Debugf int int time
  | Log_Infof string nat string
  | TickHistogram_Observe string string
  | UpdatedCounter_Inc string

text \<open>
  The collaborators of one run are a script: what each call returns. A stream delivers a
  finite list of messages and then ends, with \<open>io.EOF\<close> (\<open>None\<close>) or with an error.
  \<open>ca_send k\<close> and \<open>cs_send k\<close> are the results of the \<open>k\<close>-th \<open>Send\<close> on the CA and on
  the storer stream (the metadata frame is number 0). \<open>crl_Id\<close> is \<open>crl.Id\<close>, which lives
  in another package, and \<open>sha256\<close> the hash function of the standard library; a
  \<open>hash.Hash\<close> is modelled by the bytes written to it so far, and \<open>Sum(nil)\<close> hashes them.
\<close>

record 'e shard_env =
  crl_Id :: "issuerNameID \<Rightarrow> int \<Rightarrow> int \<Rightarrow> error + string"
  sa_connect :: "error option"
  sa_entries :: "'e list"
  sa_end :: "error option"
  ca_connect :: "error option"
  ca_send :: "nat \<Rightarrow> error option"
  ca_close_send :: "error option"
  ca_chunks :: "string list"
  ca_end :: "error option"
  cs_connect :: "error option"
  cs_send :: "nat \<Rightarrow> error option"
  cs_close :: "error option"
  sha256 :: "string \<Rightarrow> string"

text \<open>The first loop: every entry received from the SA is sent to the CA.\<close>

fun forwardLoop ::
  "string \<Rightarrow> ('e, 'x) shard_env_scheme \<Rightarrow> nat \<Rightarrow> 'e list \<Rightarrow> error option \<times> 'e event list" where
  "forwardLoop crlId env k [] =
     (case sa_end env of
        None \<Rightarrow> (None, [])
      | Some e \<Rightarrow> (Some (Wrapped (''retrieving entry from SA for '' @ crlId) e), []))"
| "forwardLoop crlId env k (entry # entries) =
     (case ca_send env k of
        Some e \<Rightarrow> (Some (Wrapped (''sending entry to CA for '' @ crlId) e),
                   [CA_Send (CA_Entry entry)])
      | None \<Rightarrow>
          (case forwardLoop crlId env (Suc k) entries of
             (r, evs) \<Rightarrow> (r, CA_Send (CA_Entry entry) # evs)))"

text \<open>
  The second loop: every chunk received from the CA is sent to the storer, then counted
  in \<open>crlLen\<close> and written to \<open>crlHash\<close>. (\<open>crlLen\<close> is an \<open>int\<close> that adds up the
  lengths of byte slices received one after the other; it is a \<open>nat\<close> here, the
  \<open>2^63\<close> bytes that would wrap it being out of reach of a CRL.)
\<close>

fun relayLoop ::
  "string \<Rightarrow> ('e, 'x) shard_env_scheme \<Rightarrow> nat \<Rightarrow> string list \<Rightarrow> nat \<Rightarrow> string
     \<Rightarrow> error option \<times> 'e event list \<times> nat \<times> string" where
  "relayLoop crlId env k [] crlLen crlHash =
     (case ca_end env of
        None \<Rightarrow> (None, [], crlLen, crlHash)
      | Some e \<Rightarrow> (Some (Wrapped (''receiving CRL bytes for '' @ crlId) e), [], crlLen, crlHash))"
| "relayLoop crlId env k (chunk # chunks) crlLen crlHash =
     (case cs_send env k of
        Some e \<Rightarrow> (Some (Wrapped (''uploading CRL bytes for '' @ crlId) e),
                   [CS_Send (CS_CrlChunk chunk)], crlLen, crlHash)
      | None \<Rightarrow>
          (case relayLoop crlId env (Suc k) chunks (crlLen + length chunk) (crlHash @ chunk) of
             (r, evs, len, hash) \<Rightarrow> (r, CS_Send (CS_CrlChunk chunk) # evs, len, hash)))"

text \<open>
  The body of \<open>tickShard\<close> after the CRL id has been derived: its outcome, the value of
  the local variable \<open>result\<close> when it leaves, and its trace.
\<close>

definition tickShardBody ::
  "crlUpdater \<Rightarrow> ('e, 'x) shard_env_scheme \<Rightarrow> string \<Rightarrow> time \<Rightarrow> issuerNameID \<Rightarrow> int
     \<Rightarrow> error option outcome \<times> string \<times> 'e event list" where
  "tickShardBody cu env crlId atTime issuerNameID shardIdx0 =
     (let ev0 = [Log_Debugf shardIdx0 issuerNameID atTime]
      in case getShardBoundaries cu atTime shardIdx0 of
        Inl p \<Rightarrow> (Panic p, ''success'', ev0)
      | Inr (expiresAfter, expiresBefore) \<Rightarrow>
      let ev1 = ev0 @ [SA_GetRevokedCerts issuerNameID (time_UnixNano expiresAfter)
                         (time_UnixNano expiresBefore) (time_UnixNano atTime)]
      in case sa_connect env of
        Some e \<Rightarrow> (Return (Some (Wrapped (''connecting to SA for '' @ crlId) e)), ''failed'', ev1)
      | None \<Rightarrow>
      let ev2 = ev1 @ [CA_GenerateCRL]
      in case ca_connect env of
        Some e \<Rightarrow> (Return (Some (Wrapped (''connecting to CA for '' @ crlId) e)), ''failed'', ev2)
      | None \<Rightarrow>
      let ev3 = ev2 @ [CA_Send (CA_Metadata issuerNameID (time_UnixNano atTime) shardIdx0)]
      in case ca_send env 0 of
        Some e \<Rightarrow> (Return (Some (Wrapped (''sending CA metadata for '' @ crlId) e)), ''failed'', ev3)
      | None \<Rightarrow>
      (case forwardLoop crlId env 1 (sa_entries env) of
        (Some e, evs) \<Rightarrow> (Return (Some e), ''failed'', ev3 @ evs)
      | (None, evs) \<Rightarrow>
      let ev4 = ev3 @ evs @ [CA_CloseSend]
      in case ca_close_send env of
        Some e \<Rightarrow> (Return (Some (Wrapped (''closing CA request stream for '' @ crlId) e)),
                   ''failed'', ev4)
      | None \<Rightarrow>
      let ev5 = ev4 @ [CS_UploadCRL]
      in case cs_connect env of
        Some e \<Rightarrow> (Return (Some (Wrapped (''connecting to CRLStorer for '' @ crlId) e)),
                   ''failed'', ev5)
      | None \<Rightarrow>
      let ev6 = ev5 @ [CS_Send (CS_Metadata issuerNameID (time_UnixNano atTime) shardIdx0)]
      in case cs_send env 0 of
        Some e \<Rightarrow> (Return (Some (Wrapped (''sending CRLStorer metadata for '' @ crlId) e)),
                   ''failed'', ev6)
      | None \<Rightarrow>
      (case relayLoop crlId env 1 (ca_chunks env) 0 [] of
        (Some e, evs', crlLen, crlHash) \<Rightarrow> (Return (Some e), ''failed'', ev6 @ evs')
      | (None, evs', crlLen, crlHash) \<Rightarrow>
      let ev7 = ev6 @ evs' @ [Log_Infof crlId crlLen (sha256 env crlHash), CS_CloseAndRecv]
      in case cs_close env of
        Some e \<Rightarrow> (Return (Some (Wrapped (''closing CRLStorer upload stream for '' @ crlId) e)),
                   ''failed'', ev7)
      | None \<Rightarrow> (Return None, ''success'', ev7))))"

text \<open>
  \<open>tickShard\<close> itself: the id is derived first, and a failure there returns before the
  deferred function is installed. Otherwise the deferred function runs when the body
  leaves, also by a panic; it looks the issuer up in \<open>cu.issuers\<close> and dereferences the
  result, which panics for an unknown issuer.
\<close>

definition tickShard ::
  "crlUpdater \<Rightarrow> ('e, 'x) shard_env_scheme \<Rightarrow> time \<Rightarrow> issuerNameID \<Rightarrow> int
     \<Rightarrow> error option outcome \<times> 'e event list" where
  "tickShard cu env atTime issuerNameID shardIdx0 =
     (case crl_Id env issuerNameID (time_UnixNano atTime) shardIdx0 of
        Inl e \<Rightarrow> (Return (Some e), [])
      | Inr crlId \<Rightarrow>
          (case tickShardBody cu env crlId atTime issuerNameID shardIdx0 of
             (res, result, evs) \<Rightarrow>
               (case issuers cu issuerNameID of
                  None \<Rightarrow> (Panic NilPointer, evs)
                | Some cn \<Rightarrow>
                    (res, evs @ [TickHistogram_Observe cn result, UpdatedCounter_Inc result]))))"

text \<open>
  What a trace shows of the run: the frames sent to the CA, the frames sent to the
  storer, and the CRLs reported in the log (id, size, hash).
\<close>

fun ca_sent :: "'e event list \<Rightarrow> 'e ca_request list" where
  "ca_sent [] = []"
| "ca_sent (CA_Send r # evs) = r # ca_sent evs"
| "ca_sent (_ # evs) = ca_sent evs"

fun cs_sent :: "'e event list \<Rightarrow> cs_request list" where
  "cs_sent [] = []"
| "cs_sent (CS_Send r # evs) = r # cs_sent evs"
| "cs_sent (_ # evs) = cs_sent evs"

fun logged :: "'e event list \<Rightarrow> (string \<times> nat \<times> string) list" where
  "logged [] = []"
| "logged (Log_Infof crlId len hash # evs) = (crlId, len, hash) # logged evs"
| "logged (_ # evs) = logged evs"

text \<open>
  The trace expected of a run in which every call succeeds: the debug line, the SA
  request, the CA stream with one metadata frame and then the entries in order, the
  half-close, the storer stream with one metadata frame and then the chunks in order, the
  log line, the close of the upload, and the two metric updates of the deferred function.
\<close>

definition successTrace ::
  "('e, 'x) shard_env_scheme \<Rightarrow> string \<Rightarrow> string \<Rightarrow> time \<Rightarrow> issuerNameID \<Rightarrow> int \<Rightarrow> time \<Rightarrow> time
     \<Rightarrow> 'e event list" where
  "successTrace env crlId cn atTime issuerNameID idx expiresAfter expiresBefore =
     [Log_Debugf idx issuerNameID atTime,
      SA_GetRevokedCerts issuerNameID (time_UnixNano expiresAfter)
        (time_UnixNano expiresBefore) (time_UnixNano atTime),
      CA_GenerateCRL,
      CA_Send (CA_Metadata issuerNameID (time_UnixNano atTime) idx)]
     @ map (\<lambda>entry. CA_Send (CA_Entry entry)) (sa_entries env)
     @ [CA_CloseSend, CS_UploadCRL,
        CS_Send (CS_Metadata issuerNameID (time_UnixNano atTime) idx)]
     @ map (\<lambda>chunk. CS_Send (CS_CrlChunk chunk)) (ca_chunks env)
     @ [Log_Infof crlId (sum_list (map length (ca_chunks env)))
          (sha256 env (concat (ca_chunks env))),
        CS_CloseAndRecv,
        TickHistogram_Observe cn ''success'',
        UpdatedCounter_Inc ''success'']"

section \<open>The issuer tick\<close>

text \<open>
  The workers of \<open>tickIssuer\<close> send one \<open>shardResult\<close> per finished shard to the channel
  \<open>shardResults\<close>; the function then receives \<open>numShards\<close> values from it. The scheduling
  of the workers is represented by its outcome: the list of the values that arrive on the
  channel, in the order of arrival. A receive that finds the list exhausted blocks for
  ever (the channel is never closed), so the loop returns nothing: \<open>None\<close>.
\<close>

record shardResult =
  shardIdx :: int
  err :: "error option"

fun collectResults :: "nat \<Rightarrow> shardResult list \<Rightarrow> error option option" where
  "collectResults 0 ch = Some None"
| "collectResults (Suc i) [] = None"
| "collectResults (Suc i) (res # ch) =
     (case err res of
        Some cause \<Rightarrow> Some (Some (Wrapped (''updating shard '' @ fmt_d (shardIdx res)) cause))
      | None \<Rightarrow> collectResults i ch)"

definition tickIssuer ::
  "crlUpdater \<Rightarrow> issuerNameID \<Rightarrow> shardResult list
     \<Rightarrow> (error option outcome \<times> unit event list) option" where
  "tickIssuer cu issuerNameID ch =
     (case collectResults (nat (numShards cu)) ch of
        None \<Rightarrow> None
      | Some r \<Rightarrow>
          Some (case issuers cu issuerNameID of
                  None \<Rightarrow> (Panic NilPointer, [])
                | Some cn \<Rightarrow>
                    (Return r,
                     [TickHistogram_Observe (cn @ '' (Overall)'')
                        (if r = None then ''success'' else ''failed'')])))"

section \<open>Concrete configurations and runs\<close>

text \<open>
  2024-01-01T00:00:00Z, and three updaters, each the result of \<open>NewUpdater\<close>: ten shards
  with hourly updates and 90-day certificates; 120 shards with daily updates and 90-day
  certificates; and three shards with a certificate lifetime of some 125 years, where the
  window arithmetic leaves the range of \<open>int64\<close>.
\<close>

definition t2024 :: time where
  "t2024 = 63839664000000000000"

text \<open>One minute after the zero instant, \<open>time.Time{}.Add(time.Minute)\<close>.\<close>

definition minutePastZero :: time where
  "minutePastZero = 60000000000"

definition hourlyUpdater :: crlUpdater where
  "hourlyUpdater =
     \<lparr> issuers = Map.empty, numShards = 10, lookbackPeriod = 14400000000000,
       lookforwardPeriod = 10892160000000000, updatePeriod = 3600000000000,
       updateOffset = 0, maxParallelism = 1 \<rparr>"

definition dailyUpdater :: crlUpdater where
  "dailyUpdater =
     \<lparr> issuers = Map.empty, numShards = 120, lookbackPeriod = 345600000000000,
       lookforwardPeriod = 8046720000000000, updatePeriod = 86400000000000,
       updateOffset = 0, maxParallelism = 1 \<rparr>"

definition overflowUpdater :: crlUpdater where
  "overflowUpdater =
     \<lparr> issuers = Map.empty, numShards = 3, lookbackPeriod = 4,
       lookforwardPeriod = 9223372036854775805, updatePeriod = 1,
       updateOffset = 0, maxParallelism = 1 \<rparr>"

text \<open>
  A scripted run in which every call succeeds: the SA yields two entries, the CA two
  chunks. The hash function of the script is a stand-in that marks its input.
\<close>

definition exampleUpdater :: crlUpdater where
  "exampleUpdater = hourlyUpdater \<lparr> issuers := [7 \<mapsto> ''Test CA''] \<rparr>"

definition exampleEnv :: "nat shard_env" where
  "exampleEnv =
     \<lparr> crl_Id = (\<lambda>issuer number idx. Inr ''crl-7''),
       sa_connect = None, sa_entries = [11, 22], sa_end = None,
       ca_connect = None, ca_send = (\<lambda>k. None), ca_close_send = None,
       ca_chunks = [''ab'', ''cde''], ca_end = None,
       cs_connect = None, cs_send = (\<lambda>k. None), cs_close = None,
       sha256 = (\<lambda>bytes. ''#'' @ bytes) \<rparr>"

definition exampleTrace :: "nat event list" where
  "exampleTrace =
     [Log_Debugf 0 7 t2024,
      SA_GetRevokedCerts 7 1707644923145224193 1708735579145224193 1704067200000000000,
      CA_GenerateCRL,
      CA_Send (CA_Metadata 7 1704067200000000000 0),
      CA_Send (CA_Entry 11),
      CA_Send (CA_Entry 22),
      CA_CloseSend,
      CS_UploadCRL,
      CS_Send (CS_Metadata 7 1704067200000000000 0),
      CS_Send (CS_CrlChunk ''ab''),
      CS_Send (CS_CrlChunk ''cde''),
      Log_Infof ''crl-7'' 5 ''#abcde'',
      CS_CloseAndRecv,
      TickHistogram_Observe ''Test CA'' ''success'',
      UpdatedCounter_Inc ''success'']"

text \<open>The same script with an SA that has nothing to report and a CA that returns no chunk.\<close>

definition emptyEnv :: "nat shard_env" where
  "emptyEnv = exampleEnv \<lparr> sa_entries := [], ca_chunks := [] \<rparr>"

text \<open>The same script with a \<open>crl.Id\<close> that fails.\<close>

definition failingIdEnv :: "nat shard_env" where
  "failingIdEnv =
     exampleEnv \<lparr> crl_Id := (\<lambda>issuer number idx. Inl (External ''bad shard index'')) \<rparr>"

text \<open>
  Three results in the order of their arrival: shard 2 succeeded, then shard 1 failed,
  then shard 0 failed.
\<close>

definition exampleResults :: "shardResult list" where
  "exampleResults =
     [\<lparr> shardIdx = 2, err = None \<rparr>,
      \<lparr> shardIdx = 1, err = Some (External ''boom'') \<rparr>,
      \<lparr> shardIdx = 0, err = Some (External ''bang'') \<rparr>]"

section \<open>Arithmetic within the range of int64\<close>

lemmas int64_ops = wrap64_def add64_def sub64_def mul64_def neg64_def div64_def rem64_def
  signed_divide_int_def signed_modulo_int_def

lemmas boundary_defs = getShardBoundaries_def windowWidth_def shardWidth_def zeroStart_def
  atTimeOffset_def time_Add_def time_Sub_def time_Before_def time_zero_def maxDuration_def
  minDuration_def Let_def

lemma wrap64_id: "is_int64 x \<Longrightarrow> wrap64 x = x"
  by (simp add: wrap64_def is_int64_def)

lemma sdiv_nonneg: "0 \<le> a \<Longrightarrow> 0 < b \<Longrightarrow> a sdiv b = (a::int) div b"
  by (simp add: signed_divide_int_def sgn_if)

lemma smod_nonneg: "0 \<le> a \<Longrightarrow> 0 < b \<Longrightarrow> a smod b = (a::int) mod b"
  by (simp add: signed_modulo_int_def sgn_if)

lemma intervals_overlap_iff:
  "intervals_overlap (s, e) (a, b) \<longleftrightarrow> (\<exists>x. s \<le> x \<and> x < e \<and> a \<le> x \<and> x < b)"
proof
  assume "intervals_overlap (s, e) (a, b)"
  then have "s \<le> max s a \<and> max s a < e \<and> a \<le> max s a \<and> max s a < b"
    by (simp add: intervals_overlap_def)
  then show "\<exists>x. s \<le> x \<and> x < e \<and> a \<le> x \<and> x < b" by blast
next
  assume "\<exists>x. s \<le> x \<and> x < e \<and> a \<le> x \<and> x < b"
  then show "intervals_overlap (s, e) (a, b)"
    by (auto simp: intervals_overlap_def)
qed

section \<open>The three concrete updaters are results of the constructor\<close>

lemma NewUpdater_hourly: "NewUpdater [] 10 (2160 * Hour) Hour 0 1 = Inr hourlyUpdater"
  unfolding NewUpdater_def Let_def Hour_def hourlyUpdater_def
  by (simp add: int64_ops)

lemma NewUpdater_daily: "NewUpdater [] 120 (2160 * Hour) (24 * Hour) 0 1 = Inr dailyUpdater"
  unfolding NewUpdater_def Let_def Hour_def dailyUpdater_def
  by (simp add: int64_ops)

lemma NewUpdater_overflow: "NewUpdater [] 3 3952873730080618199 1 0 1 = Inr overflowUpdater"
  unfolding NewUpdater_def Let_def Hour_def overflowUpdater_def
  by (simp add: int64_ops)

lemma valid_config_examples:
  "valid_config 10 (2160 * Hour) Hour 0"
  "valid_config 120 (2160 * Hour) (24 * Hour) 0"
  "valid_config 3 3952873730080618199 1 0"
  by (simp_all add: valid_config_def is_int64_def Hour_def)

section \<open>Shard boundaries: what the anchor is\<close>

text \<open>
  From the year 293 on, \<open>atTime\<close> is further from \<open>time.Time{}\<close> than a \<open>Duration\<close> can
  hold, so \<open>Sub\<close> returns \<open>maxDuration\<close> whatever \<open>atTime\<close> is. The offset of \<open>atTime\<close> in
  its epoch is then one constant of the configuration, and the boundaries move with
  \<open>atTime\<close>, nanosecond by nanosecond.
\<close>

lemma time_Sub_saturated: "maxDuration \<le> t \<Longrightarrow> time_Sub t time_zero = maxDuration"
  by (simp add: time_Sub_def time_zero_def Let_def maxDuration_def minDuration_def)

lemma zeroStart_saturated:
  "maxDuration \<le> atTime \<Longrightarrow>
     zeroStart cu atTime = atTime + neg64 (rem64 maxDuration (windowWidth cu))"
  by (simp add: zeroStart_def atTimeOffset_def time_Add_def time_Sub_saturated)

lemma zeroStart_early:
  assumes "0 \<le> atTime" and "atTime \<le> maxDuration" and "0 < windowWidth cu"
  shows "zeroStart cu atTime = atTime - atTime mod windowWidth cu"
proof -
  have sub: "time_Sub atTime time_zero = atTime"
    using assms(1,2) by (simp add: time_Sub_def time_zero_def Let_def minDuration_def)
  have off: "atTimeOffset cu atTime = atTime mod windowWidth cu"
    using assms(1,3) by (simp add: atTimeOffset_def sub rem64_def smod_nonneg)
  have "0 \<le> atTime mod windowWidth cu" "atTime mod windowWidth cu \<le> atTime"
    using assms(1,3) by (simp_all add: zmod_le_nonneg_dividend)
  then have "is_int64 (- (atTime mod windowWidth cu))"
    using assms(2) by (simp add: is_int64_def maxDuration_def)
  then show ?thesis
    by (simp add: zeroStart_def off neg64_def wrap64_id time_Add_def)
qed

lemma boundaries_slide:
  assumes "maxDuration \<le> atTime" and "0 \<le> d"
  shows "getShardBoundaries cu (atTime + d) idx =
           map_sum id (\<lambda>(s, e). (s + d, e + d)) (getShardBoundaries cu atTime idx)"
proof -
  have "time_Sub (atTime + d) time_zero = time_Sub atTime time_zero"
    using assms by (simp add: time_Sub_saturated)
  then have z: "zeroStart cu (atTime + d) = zeroStart cu atTime + d"
    by (simp add: zeroStart_def atTimeOffset_def time_Add_def)
  show ?thesis
    unfolding getShardBoundaries_def Let_def z
    by (simp add: time_Add_def time_Before_def)
qed

text \<open>
  Claim C1 (shard stability). The claim: two times for which the same physical chunk is the
  leftmost one that overlaps the window give the same boundaries; the start moves only by
  multiples of the window width. The code at ten shards, hourly updates and 90-day
  certificates: at 2024-01-01T00:00:00Z and one nanosecond later the leftmost overlapping
  chunk 0 is the same chunk, yet the boundaries returned differ by that one nanosecond,
  with a window of 10906560000000000 ns; and neither is the chunk of the documentation.
\<close>

theorem shard_stability_fails:
  "NewUpdater [] 10 (2160 * Hour) Hour 0 1 = Inr hourlyUpdater
   \<and> getShardBoundaries hourlyUpdater t2024 0 =
     Inr (63843241723145224193, 63844332379145224193)
   \<and> getShardBoundaries hourlyUpdater (t2024 + 1) 0 =
     Inr (63843241723145224194, 63844332379145224194)
   \<and> windowWidth hourlyUpdater = 10906560000000000
   \<and> spec_leftmostChunk hourlyUpdater t2024 0 = (63847002240000000000, 63848092896000000000)
   \<and> spec_leftmostChunk hourlyUpdater (t2024 + 1) 0 =
     (63847002240000000000, 63848092896000000000)"
  unfolding NewUpdater_hourly
  unfolding boundary_defs hourlyUpdater_def t2024_def spec_leftmostChunk_def
  by (simp add: int64_ops)

text \<open>
  Claim C2 (window overlap). The claim: the interval returned overlaps
  \<open>[atTime - lookbackPeriod, atTime + lookforwardPeriod)\<close>. The code at 120 shards, daily
  updates and 90-day certificates, at 2024-01-01T00:00:00Z, for shard 119: the interval
  returned begins after the right edge of the window. The same happens one minute after
  the zero instant, where \<open>Sub\<close> does not saturate: the code moves a chunk forward by one
  window when it lies left of the window, and never back when the window begins in the
  previous epoch.
\<close>

theorem window_overlap_fails:
  "valid_config 120 (2160 * Hour) (24 * Hour) 0
   \<and> NewUpdater [] 120 (2160 * Hour) (24 * Hour) 0 1 = Inr dailyUpdater
   \<and> getShardBoundaries dailyUpdater t2024 119 =
       Inr (63847774027145224193, 63847843963145224193)
   \<and> t2024 + lookforwardPeriod dailyUpdater = 63847710720000000000
   \<and> \<not> intervals_overlap (63847774027145224193, 63847843963145224193)
         (t2024 - lookbackPeriod dailyUpdater, t2024 + lookforwardPeriod dailyUpdater)
   \<and> getShardBoundaries dailyUpdater minutePastZero 119 =
       Inr (8322384000000000, 8392320000000000)
   \<and> minutePastZero + lookforwardPeriod dailyUpdater = 8046780000000000
   \<and> \<not> intervals_overlap (8322384000000000, 8392320000000000)
         (minutePastZero - lookbackPeriod dailyUpdater,
          minutePastZero + lookforwardPeriod dailyUpdater)"
  unfolding NewUpdater_daily
  unfolding boundary_defs dailyUpdater_def t2024_def minutePastZero_def intervals_overlap_def
  by (simp add: int64_ops valid_config_examples)

text \<open>
  Claim C3 (epoch-zero anchoring). The claim: \<open>zeroStart\<close> is \<open>atTime\<close> less the remainder
  of the nanoseconds of \<open>atTime\<close> since the zero of the time representation, modulo the
  window width. The code at ten shards, hourly updates and 90-day certificates, at
  2024-01-01T00:00:00Z: the offset subtracted is the remainder of \<open>maxDuration\<close>, which is
  neither the remainder of the nanoseconds since the zero instant nor that of the
  nanoseconds since the Unix epoch.
\<close>

theorem anchor_not_epoch_start:
  "NewUpdater [] 10 (2160 * Hour) Hour 0 1 = Inr hourlyUpdater
   \<and> atTimeOffset hourlyUpdater t2024 = 7328836854775807
   \<and> zeroStart hourlyUpdater t2024 = t2024 - 7328836854775807
   \<and> maxDuration mod windowWidth hourlyUpdater = 7328836854775807
   \<and> t2024 mod windowWidth hourlyUpdater = 3568320000000000
   \<and> time_UnixNano t2024 mod windowWidth hourlyUpdater = 2643840000000000"
  unfolding NewUpdater_hourly
  unfolding boundary_defs hourlyUpdater_def t2024_def time_UnixNano_def unixToInternal_def
  by (simp add: int64_ops)

section \<open>Shard boundaries: the width\<close>

lemma getShardBoundaries_width:
  assumes "numShards cu \<noteq> 0" and "windowWidth cu \<noteq> 0"
  shows "\<exists>s e. getShardBoundaries cu atTime idx = Inr (s, e) \<and> e - s = shardWidth cu"
  using assms unfolding getShardBoundaries_def Let_def time_Add_def
  by simp

text \<open>
  The constructor on a valid configuration whose window arithmetic stays within \<open>int64\<close>:
  every wrapped operation is the exact one.
\<close>

lemma NewUpdater_exact:
  assumes v: "valid_config n cl up uo" and b: "window_in_int64 n cl up"
  shows "\<exists>lf. NewUpdater ic n cl up uo mp =
            Inr \<lparr> issuers = foldl (\<lambda>m (nameID, cn). m(nameID \<mapsto> cn)) Map.empty ic,
                  numShards = n,
                  lookbackPeriod = 4 * up,
                  lookforwardPeriod = lf,
                  updatePeriod = up,
                  updateOffset = uo,
                  maxParallelism = (if mp \<le> 0 then 1 else mp) \<rparr>
          \<and> 0 < 4 * up + lf \<and> 4 * up + lf < 2 ^ 63 \<and> n dvd 4 * up + lf"
proof -
  define q where "q = (4 * up + cl) div n"
  define w where "w = 4 * up + (cl + 4 * q)"
  define r where "r = w mod n"
  define lf where "lf = (if r \<noteq> 0 then cl + 4 * q + (n - r) else cl + 4 * q)"
  from v have n: "1 \<le> n" and cl: "0 < cl" and uo: "0 \<le> uo" "uo < up"
    and up: "up < 7 * 24 * Hour"
    by (simp_all add: valid_config_def)
  have up0: "0 < up" using uo by simp
  have s0: "0 < 4 * up + cl" using up0 cl by simp
  have q0: "0 \<le> q" using s0 n by (simp add: q_def pos_imp_zdiv_nonneg_iff)
  have w0: "0 < w" using s0 q0 by (simp add: w_def)
  have r0: "0 \<le> r" and rn: "r < n" using n by (simp_all add: r_def)
  have sd: "(4 * up + cl) sdiv n = q"
    using s0 n by (simp add: sdiv_nonneg q_def)
  have sm: "(4 * up + (cl + 4 * q)) smod n = r"
    using w0 n by (simp add: smod_nonneg r_def w_def)
  from b have rng:
    "is_int64 (4 * up)" "is_int64 (4 * up + cl)" "is_int64 q" "is_int64 (4 * q)"
    "is_int64 (cl + 4 * q)" "is_int64 (4 * up + (cl + 4 * q))" "is_int64 (n - r)"
    "is_int64 (if r \<noteq> 0 then cl + 4 * q + (n - r) else cl + 4 * q)"
    "is_int64 (4 * up + (if r \<noteq> 0 then cl + 4 * q + (n - r) else cl + 4 * q))"
    unfolding window_in_int64_def Let_def sd sm by blast+
  have e1: "mul64 4 up = 4 * up"
    unfolding mul64_def using rng(1) by (rule wrap64_id)
  have e2: "add64 (4 * up) cl = 4 * up + cl"
    unfolding add64_def using rng(2) by (rule wrap64_id)
  have e3: "div64 (4 * up + cl) n = q"
    unfolding div64_def sd using rng(3) by (rule wrap64_id)
  have e4: "mul64 4 q = 4 * q"
    unfolding mul64_def using rng(4) by (rule wrap64_id)
  have e5: "add64 cl (4 * q) = cl + 4 * q"
    unfolding add64_def using rng(5) by (rule wrap64_id)
  have e6: "add64 (4 * up) (cl + 4 * q) = 4 * up + (cl + 4 * q)"
    unfolding add64_def using rng(6) by (rule wrap64_id)
  have e7: "rem64 (4 * up + (cl + 4 * q)) n = r"
    unfolding rem64_def by (rule sm)
  have e8: "sub64 n r = n - r"
    unfolding sub64_def using rng(7) by (rule wrap64_id)
  have e9: "add64 (cl + 4 * q) (n - r) = cl + 4 * q + (n - r)"
    if "r \<noteq> 0"
    unfolding add64_def using rng(8) that by (intro wrap64_id) simp
  have guards: "\<not> n < 1" "\<not> 7 * 24 * Hour \<le> up" "\<not> up \<le> uo"
    using n up uo by simp_all
  have lfeq: "(if r \<noteq> 0 then add64 (cl + 4 * q) (n - r) else cl + 4 * q) = lf"
    using e9 by (simp add: lf_def)
  have eq: "NewUpdater ic n cl up uo mp =
            Inr \<lparr> issuers = foldl (\<lambda>m (nameID, cn). m(nameID \<mapsto> cn)) Map.empty ic,
                  numShards = n, lookbackPeriod = 4 * up, lookforwardPeriod = lf,
                  updatePeriod = up, updateOffset = uo,
                  maxParallelism = (if mp \<le> 0 then 1 else mp) \<rparr>"
    unfolding NewUpdater_def Let_def
    by (simp only: guards if_False e1 e2 e3 e4 e5 e6 e7 e8 lfeq)
  have sum: "4 * up + lf = (if r \<noteq> 0 then w + (n - r) else w)"
    by (simp add: lf_def w_def)
  have pos: "0 < 4 * up + lf" using sum w0 r0 rn by (simp split: if_splits)
  have bound: "4 * up + lf < 2 ^ 63"
    using rng(9) by (simp add: lf_def is_int64_def)
  have d1: "n dvd w - r" unfolding r_def by (rule dvd_minus_mod)
  have dvd: "n dvd 4 * up + lf"
  proof (cases "r = 0")
    case True
    with d1 show ?thesis by (simp add: sum)
  next
    case False
    have "n dvd (w - r) + n" using d1 by simp
    moreover have "4 * up + lf = (w - r) + n" using False by (simp add: sum)
    ultimately show ?thesis by simp
  qed
  from eq pos bound dvd show ?thesis by blast
qed

text \<open>
  Configurations inside and outside the condition: ten shards with hourly updates and
  90-day or 60-year certificates are inside; three shards with an update period of 1 ns
  and a lifetime of 3952873730080618199 ns are outside.
\<close>

lemma window_in_int64_examples:
  "window_in_int64 10 (2160 * Hour) Hour"
  "window_in_int64 10 (60 * 8766 * Hour) Hour"
  "\<not> window_in_int64 3 3952873730080618199 1"
  unfolding window_in_int64_def Let_def Hour_def is_int64_def
  by (simp_all add: signed_divide_int_def signed_modulo_int_def)

text \<open>A bound that is easy to check and keeps a valid configuration inside the condition.\<close>

lemma window_in_int64_sufficient:
  assumes "valid_config n cl up uo" and "5 * (4 * up + cl) + n < 2 ^ 63"
  shows "window_in_int64 n cl up"
proof -
  define q where "q = (4 * up + cl) div n"
  define r where "r = (4 * up + (cl + 4 * q)) mod n"
  from assms(1) have n: "1 \<le> n" and cl: "0 < cl" and uo: "0 \<le> uo" "uo < up"
    by (simp_all add: valid_config_def)
  have up0: "0 < up" using uo by simp
  have s0: "0 < 4 * up + cl" using up0 cl by simp
  have q0: "0 \<le> q" using s0 n by (simp add: q_def pos_imp_zdiv_nonneg_iff)
  have qs: "q \<le> 4 * up + cl" unfolding q_def using s0 by (rule int_div_le_self)
  have r0: "0 \<le> r" and rn: "r < n" using n by (simp_all add: r_def)
  have sd: "(4 * up + cl) sdiv n = q"
    using s0 n by (simp add: sdiv_nonneg q_def)
  have sm: "(4 * up + (cl + 4 * q)) smod n = r"
    using s0 q0 n by (simp add: smod_nonneg r_def)
  show ?thesis
    unfolding window_in_int64_def Let_def sd sm
    using assms(2) n cl up0 q0 qs r0 rn by (simp add: is_int64_def)
qed

text \<open>
  Claim C4 (exact shard width), as amended. For every valid configuration whose window
  arithmetic stays within \<open>int64\<close>, \<open>NewUpdater\<close> returns an updater whose window
  \<open>lookbackPeriod + lookforwardPeriod\<close> leaves remainder 0 on division by \<open>numShards\<close>, so
  that \<open>shardWidth * numShards = windowWidth\<close>; and for every \<open>atTime\<close> and every shard
  index \<open>getShardBoundaries\<close> returns an interval of width exactly \<open>shardWidth\<close>, that is
  \<open>windowWidth / numShards\<close>.
\<close>

theorem shard_width_exact:
  assumes "valid_config n cl up uo" and "window_in_int64 n cl up"
  shows "\<exists>cu. NewUpdater ic n cl up uo mp = Inr cu \<and>
           windowWidth cu = lookbackPeriod cu + lookforwardPeriod cu \<and>
           rem64 (windowWidth cu) (numShards cu) = 0 \<and>
           shardWidth cu * numShards cu = windowWidth cu \<and>
           (\<forall>atTime idx. \<exists>s e.
              getShardBoundaries cu atTime idx = Inr (s, e) \<and> e - s = shardWidth cu)"
proof -
  from assms have n: "1 \<le> n" by (simp add: valid_config_def)
  from NewUpdater_exact [OF assms, of ic mp] obtain lf cu where
    cu: "NewUpdater ic n cl up uo mp = Inr cu"
    and flds: "numShards cu = n" "lookbackPeriod cu = 4 * up" "lookforwardPeriod cu = lf"
    and pos: "0 < 4 * up + lf" and bound: "4 * up + lf < 2 ^ 63" and dvd: "n dvd 4 * up + lf"
    by fastforce
  have W: "windowWidth cu = 4 * up + lf"
    unfolding windowWidth_def add64_def flds using pos bound
    by (intro wrap64_id) (simp add: is_int64_def)
  have rem: "rem64 (windowWidth cu) (numShards cu) = 0"
    unfolding W flds rem64_def using pos n dvd by (simp add: smod_nonneg)
  have "0 \<le> (4 * up + lf) div n" "(4 * up + lf) div n \<le> 4 * up + lf"
    using pos n by (simp_all add: pos_imp_zdiv_nonneg_iff int_div_le_self)
  then have sw: "shardWidth cu = (4 * up + lf) div n"
    unfolding shardWidth_def W flds div64_def using pos n bound
    by (simp add: sdiv_nonneg wrap64_id is_int64_def)
  have mult: "shardWidth cu * numShards cu = windowWidth cu"
    unfolding sw W flds using dvd by simp
  have "numShards cu \<noteq> 0" "windowWidth cu \<noteq> 0" using n pos flds W by simp_all
  then have "\<forall>atTime idx. \<exists>s e.
      getShardBoundaries cu atTime idx = Inr (s, e) \<and> e - s = shardWidth cu"
    using getShardBoundaries_width by blast
  with cu W rem mult show ?thesis using flds by auto
qed

text \<open>
  The amended claim at ten shards, hourly updates and 90-day certificates: the window is
  10906560000000000 ns, ten shards of 1090656000000000 ns each.
\<close>

theorem shard_width_exact_witness:
  "valid_config 10 (2160 * Hour) Hour 0
   \<and> window_in_int64 10 (2160 * Hour) Hour
   \<and> NewUpdater [] 10 (2160 * Hour) Hour 0 1 = Inr hourlyUpdater
   \<and> windowWidth hourlyUpdater = lookbackPeriod hourlyUpdater + lookforwardPeriod hourlyUpdater
   \<and> rem64 (windowWidth hourlyUpdater) (numShards hourlyUpdater) = 0
   \<and> shardWidth hourlyUpdater * numShards hourlyUpdater = windowWidth hourlyUpdater
   \<and> (\<forall>atTime idx. \<exists>s e.
         getShardBoundaries hourlyUpdater atTime idx = Inr (s, e) \<and>
         e - s = shardWidth hourlyUpdater)"
proof -
  have v: "valid_config 10 (2160 * Hour) Hour 0" by (rule valid_config_examples(1))
  have b: "window_in_int64 10 (2160 * Hour) Hour" by (rule window_in_int64_examples(1))
  from shard_width_exact [OF v b, of "[]" 1] obtain cu where
    cu: "NewUpdater [] 10 (2160 * Hour) Hour 0 1 = Inr cu"
    and width: "windowWidth cu = lookbackPeriod cu + lookforwardPeriod cu"
      "rem64 (windowWidth cu) (numShards cu) = 0"
      "shardWidth cu * numShards cu = windowWidth cu"
      "\<forall>atTime idx. \<exists>s e.
         getShardBoundaries cu atTime idx = Inr (s, e) \<and> e - s = shardWidth cu"
    by blast
  from cu have "cu = hourlyUpdater" by (simp add: NewUpdater_hourly)
  with width v b NewUpdater_hourly show ?thesis by blast
qed

text \<open>
  Claim C4 as stated fails where the arithmetic wraps around. Three shards, an update
  period of 1 ns and a certificate lifetime of 3952873730080618199 ns are a valid
  configuration, outside the condition of the amended claim; the tentative window is
  \<open>2^63 - 1\<close>, the sum of the rounded-up \<open>lookforwardPeriod\<close> and \<open>lookbackPeriod\<close> wraps, and the window
  that \<open>getShardBoundaries\<close> computes is \<open>- (2^63 - 1)\<close>, which is no multiple of 3: three
  shard widths are one nanosecond short of it.
\<close>

theorem shard_width_overflow_counterexample:
  "valid_config 3 3952873730080618199 1 0
   \<and> \<not> window_in_int64 3 3952873730080618199 1
   \<and> NewUpdater [] 3 3952873730080618199 1 0 1 = Inr overflowUpdater
   \<and> windowWidth overflowUpdater = - 9223372036854775807
   \<and> rem64 (windowWidth overflowUpdater) (numShards overflowUpdater) = - 1
   \<and> shardWidth overflowUpdater * numShards overflowUpdater = - 9223372036854775806"
  unfolding NewUpdater_overflow
  unfolding boundary_defs overflowUpdater_def
  by (simp add: int64_ops valid_config_examples window_in_int64_examples)

section \<open>Shard boundaries: which chunk is chosen\<close>

text \<open>
  Claim C5 (leftmost selection). The claim: \<open>shardEnd \<ge> atTime - lookbackPeriod\<close>, and
  either \<open>shardStart \<le> atTime - lookbackPeriod\<close> or the previous instance of the chunk,
  one window width earlier, ends at or before \<open>atTime - lookbackPeriod\<close>. The code at 120
  shards, daily updates and 90-day certificates, at 2024-01-01T00:00:00Z, for shard 118:
  the interval returned starts after the left edge of the window, and the instance one
  window width earlier ends after that edge too, so it overlaps the window and is further
  left; it is the chunk that the documentation asks for. The same happens one minute after
  the zero instant, where \<open>Sub\<close> does not saturate, for shard 119: the instance returned
  is the last chunk of the epoch that begins at the zero instant, and the one before it
  ends at the zero instant, inside the window.
\<close>

theorem leftmost_selection_fails:
  "NewUpdater [] 120 (2160 * Hour) (24 * Hour) 0 1 = Inr dailyUpdater
   \<and> getShardBoundaries dailyUpdater t2024 118 =
     Inr (63847704091145224193, 63847774027145224193)
   \<and> t2024 - lookbackPeriod dailyUpdater = 63839318400000000000
   \<and> t2024 - lookbackPeriod dailyUpdater < 63847704091145224193
   \<and> 63847774027145224193 - windowWidth dailyUpdater = 63839381707145224193
   \<and> t2024 - lookbackPeriod dailyUpdater < 63847774027145224193 - windowWidth dailyUpdater
   \<and> intervals_overlap
        (63847704091145224193 - windowWidth dailyUpdater,
         63847774027145224193 - windowWidth dailyUpdater)
        (t2024 - lookbackPeriod dailyUpdater, t2024 + lookforwardPeriod dailyUpdater)
   \<and> getShardBoundaries dailyUpdater minutePastZero 119 =
       Inr (8322384000000000, 8392320000000000)
   \<and> minutePastZero - lookbackPeriod dailyUpdater = - 345540000000000
   \<and> 8392320000000000 - windowWidth dailyUpdater = 0"
  unfolding NewUpdater_daily
  unfolding boundary_defs dailyUpdater_def t2024_def minutePastZero_def intervals_overlap_def
  by (simp add: int64_ops)

section \<open>The constructor's checks\<close>

text \<open>
  Claim C7 (construction validation). \<open>NewUpdater\<close> returns an error exactly when
  \<open>numShards < 1\<close> or \<open>updatePeriod \<ge> 168h\<close> or \<open>updateOffset \<ge> updatePeriod\<close>: an update
  period of \<open>7 * 24h\<close> is rejected, one nanosecond less is accepted, an offset equal to the
  period is rejected. \<open>maxParallelism\<close> plays no part in that, and an updater that is
  returned has \<open>maxParallelism\<close> 1 wherever the argument was 0 or less.
\<close>

theorem construction_validation:
  "(isl (NewUpdater ic n cl up uo mp) \<longleftrightarrow> n < 1 \<or> up \<ge> 168 * Hour \<or> uo \<ge> up)
   \<and> isl (NewUpdater ic 1 cl (7 * 24 * Hour) 0 mp)
   \<and> \<not> isl (NewUpdater ic 1 cl (7 * 24 * Hour - 1) 0 mp)
   \<and> isl (NewUpdater ic 1 cl up up mp)
   \<and> (\<not> isl (NewUpdater ic n cl up uo mp) \<longrightarrow>
        maxParallelism (projr (NewUpdater ic n cl up uo mp)) = (if mp \<le> 0 then 1 else mp))"
  by (simp add: NewUpdater_def Let_def Hour_def)

text \<open>
  Ten shards, hourly updates: accepted with \<open>maxParallelism\<close> 0, -5 and 8, and the updater
  has 1, 1 and 8.
\<close>

theorem construction_validation_witness:
  "\<not> isl (NewUpdater [] 10 (2160 * Hour) Hour 0 0)
   \<and> maxParallelism (projr (NewUpdater [] 10 (2160 * Hour) Hour 0 0)) = 1
   \<and> maxParallelism (projr (NewUpdater [] 10 (2160 * Hour) Hour 0 (- 5))) = 1
   \<and> maxParallelism (projr (NewUpdater [] 10 (2160 * Hour) Hour 0 8)) = 8"
  using construction_validation [of "[]" 10 "2160 * Hour" Hour 0 0]
    construction_validation [of "[]" 10 "2160 * Hour" Hour 0 "- 5"]
    construction_validation [of "[]" 10 "2160 * Hour" Hour 0 8]
  by (simp add: Hour_def)

section \<open>The shard pipeline\<close>

lemma forwardLoop_None:
  "forwardLoop crlId env k xs = (None, evs) \<Longrightarrow>
     evs = map (\<lambda>x. CA_Send (CA_Entry x)) xs \<and> sa_end env = None"
  by (induction xs arbitrary: k evs) (auto split: option.splits prod.splits)

lemma forwardLoop_ok:
  "sa_end env = None \<Longrightarrow> (\<forall>j < length xs. ca_send env (k + j) = None) \<Longrightarrow>
     forwardLoop crlId env k xs = (None, map (\<lambda>x. CA_Send (CA_Entry x)) xs)"
proof (induction xs arbitrary: k)
  case Nil
  then show ?case by simp
next
  case (Cons x xs)
  from Cons.prems(2) have "ca_send env k = None" by fastforce
  moreover from Cons.prems(2) have "\<forall>j < length xs. ca_send env (Suc k + j) = None"
    by fastforce
  ultimately show ?case using Cons.IH [of "Suc k"] Cons.prems(1) by simp
qed

lemma relayLoop_None:
  "relayLoop crlId env k cs len0 hash0 = (None, evs, len, hash) \<Longrightarrow>
     evs = map (\<lambda>c. CS_Send (CS_CrlChunk c)) cs \<and>
     len = len0 + sum_list (map length cs) \<and>
     hash = hash0 @ concat cs \<and> ca_end env = None"
proof (induction cs arbitrary: k len0 hash0 evs)
  case Nil
  then show ?case by (simp split: option.splits)
next
  case (Cons c cs)
  from Cons.prems obtain evs' where
    rec: "relayLoop crlId env (Suc k) cs (len0 + length c) (hash0 @ c) = (None, evs', len, hash)"
    and evs: "evs = CS_Send (CS_CrlChunk c) # evs'"
    by (auto split: option.splits prod.splits)
  from Cons.IH [OF rec] evs show ?case by simp
qed

lemma relayLoop_ok:
  "ca_end env = None \<Longrightarrow> (\<forall>j < length cs. cs_send env (k + j) = None) \<Longrightarrow>
     relayLoop crlId env k cs len0 hash0 =
       (None, map (\<lambda>c. CS_Send (CS_CrlChunk c)) cs, len0 + sum_list (map length cs),
        hash0 @ concat cs)"
proof (induction cs arbitrary: k len0 hash0)
  case Nil
  then show ?case by simp
next
  case (Cons c cs)
  from Cons.prems(2) have "cs_send env k = None" by fastforce
  moreover from Cons.prems(2) have "\<forall>j < length cs. cs_send env (Suc k + j) = None"
    by fastforce
  ultimately show ?case
    using Cons.IH [of "Suc k" "len0 + length c" "hash0 @ c"] Cons.prems(1) by simp
qed

lemma ca_sent_append: "ca_sent (xs @ ys) = ca_sent xs @ ca_sent ys"
  by (induction xs rule: ca_sent.induct) simp_all

lemma cs_sent_append: "cs_sent (xs @ ys) = cs_sent xs @ cs_sent ys"
  by (induction xs rule: cs_sent.induct) simp_all

lemma logged_append: "logged (xs @ ys) = logged xs @ logged ys"
  by (induction xs rule: logged.induct) simp_all

lemma sent_map_entries:
  "ca_sent (map (\<lambda>entry. CA_Send (CA_Entry entry)) xs) = map CA_Entry xs"
  "cs_sent (map (\<lambda>entry. CA_Send (CA_Entry entry)) xs) = []"
  "logged (map (\<lambda>entry. CA_Send (CA_Entry entry)) xs) = []"
  by (induction xs) simp_all

lemma sent_map_chunks:
  "ca_sent (map (\<lambda>chunk. CS_Send (CS_CrlChunk chunk)) cs) = []"
  "cs_sent (map (\<lambda>chunk. CS_Send (CS_CrlChunk chunk)) cs) = map CS_CrlChunk cs"
  "logged (map (\<lambda>chunk. CS_Send (CS_CrlChunk chunk)) cs) = []"
  by (induction cs) simp_all

lemma successTrace_sent:
  "ca_sent (successTrace env crlId cn atTime issuerNameID idx ea eb) =
     CA_Metadata issuerNameID (time_UnixNano atTime) idx # map CA_Entry (sa_entries env)"
  "cs_sent (successTrace env crlId cn atTime issuerNameID idx ea eb) =
     CS_Metadata issuerNameID (time_UnixNano atTime) idx # map CS_CrlChunk (ca_chunks env)"
  "logged (successTrace env crlId cn atTime issuerNameID idx ea eb) =
     [(crlId, sum_list (map length (ca_chunks env)), sha256 env (concat (ca_chunks env)))]"
  by (simp_all add: successTrace_def ca_sent_append cs_sent_append logged_append
        sent_map_entries sent_map_chunks)

text \<open>A body that returns \<open>nil\<close> has gone through every step.\<close>

lemma tickShardBody_Return_None:
  assumes "tickShardBody cu env crlId atTime issuerNameID idx = (Return None, result, evs)"
  shows "\<exists>expiresAfter expiresBefore.
           getShardBoundaries cu atTime idx = Inr (expiresAfter, expiresBefore) \<and>
           result = ''success'' \<and>
           evs @ [TickHistogram_Observe cn result, UpdatedCounter_Inc result] =
             successTrace env crlId cn atTime issuerNameID idx expiresAfter expiresBefore"
  using assms unfolding tickShardBody_def Let_def successTrace_def
  by (auto split: sum.splits option.splits prod.splits
        dest!: forwardLoop_None relayLoop_None)

text \<open>Conversely, where every call succeeds the run returns \<open>nil\<close>.\<close>

lemma tickShard_all_succeed:
  assumes "crl_Id env issuerNameID (time_UnixNano atTime) idx = Inr crlId"
    and "issuers cu issuerNameID = Some cn"
    and "getShardBoundaries cu atTime idx = Inr (expiresAfter, expiresBefore)"
    and "sa_connect env = None" and "ca_connect env = None"
    and "\<forall>k \<le> length (sa_entries env). ca_send env k = None"
    and "sa_end env = None" and "ca_close_send env = None" and "cs_connect env = None"
    and "\<forall>k \<le> length (ca_chunks env). cs_send env k = None"
    and "ca_end env = None" and "cs_close env = None"
  shows "tickShard cu env atTime issuerNameID idx =
           (Return None,
            successTrace env crlId cn atTime issuerNameID idx expiresAfter expiresBefore)"
proof -
  have fwd: "forwardLoop crlId env (Suc 0) (sa_entries env) =
               (None, map (\<lambda>entry. CA_Send (CA_Entry entry)) (sa_entries env))"
    using assms(6,7) by (intro forwardLoop_ok) auto
  have rel: "relayLoop crlId env (Suc 0) (ca_chunks env) 0 [] =
               (None, map (\<lambda>chunk. CS_Send (CS_CrlChunk chunk)) (ca_chunks env),
                0 + sum_list (map length (ca_chunks env)), [] @ concat (ca_chunks env))"
    using assms(10,11) by (intro relayLoop_ok) auto
  have s0: "ca_send env 0 = None" "cs_send env 0 = None" using assms(6,10) by auto
  show ?thesis
    unfolding tickShard_def tickShardBody_def Let_def successTrace_def
    by (simp add: assms(1-5,8,9,12) s0 fwd rel)
qed

lemma boundaries_example:
  "getShardBoundaries exampleUpdater t2024 0 = Inr (63843241723145224193, 63844332379145224193)"
  unfolding boundary_defs exampleUpdater_def hourlyUpdater_def t2024_def
  by (simp add: int64_ops)

lemma unixNano_example:
  "time_UnixNano t2024 = 1704067200000000000"
  "time_UnixNano 63843241723145224193 = 1707644923145224193"
  "time_UnixNano 63844332379145224193 = 1708735579145224193"
  by (simp_all add: time_UnixNano_def unixToInternal_def t2024_def wrap64_def)

lemma tickShard_example:
  "tickShard exampleUpdater exampleEnv t2024 7 0 = (Return None, exampleTrace)"
  unfolding tickShard_def tickShardBody_def Let_def boundaries_example
  by (simp add: exampleEnv_def exampleUpdater_def exampleTrace_def unixNano_example)

text \<open>
  Claim C6 (pipeline fidelity). In every run of \<open>tickShard\<close> that returns \<open>nil\<close>, that is,
  in which every call succeeded, the trace is the expected one: the frames sent to the CA
  are one metadata frame followed by the entries received from the SA, each once and in
  the order received; the frames sent to the storer are one metadata frame followed by the
  chunks received from the CA, each once and in order; and the one CRL reported in the log
  has as size the sum of the lengths of the chunks and as hash the SHA-256 of their
  concatenation.
\<close>

theorem pipeline_fidelity:
  assumes "tickShard cu env atTime issuerNameID idx = (Return None, tr)"
  shows "\<exists>crlId cn expiresAfter expiresBefore.
           crl_Id env issuerNameID (time_UnixNano atTime) idx = Inr crlId \<and>
           issuers cu issuerNameID = Some cn \<and>
           getShardBoundaries cu atTime idx = Inr (expiresAfter, expiresBefore) \<and>
           tr = successTrace env crlId cn atTime issuerNameID idx expiresAfter expiresBefore \<and>
           ca_sent tr =
             CA_Metadata issuerNameID (time_UnixNano atTime) idx # map CA_Entry (sa_entries env) \<and>
           cs_sent tr =
             CS_Metadata issuerNameID (time_UnixNano atTime) idx # map CS_CrlChunk (ca_chunks env) \<and>
           logged tr =
             [(crlId, sum_list (map length (ca_chunks env)), sha256 env (concat (ca_chunks env)))]"
proof -
  from assms obtain crlId where id: "crl_Id env issuerNameID (time_UnixNano atTime) idx = Inr crlId"
    by (auto simp: tickShard_def split: sum.splits)
  obtain res result evs where
    body: "tickShardBody cu env crlId atTime issuerNameID idx = (res, result, evs)"
    by (cases "tickShardBody cu env crlId atTime issuerNameID idx") auto
  from assms id body obtain cn where cn: "issuers cu issuerNameID = Some cn"
    and res: "res = Return None"
    and tr: "tr = evs @ [TickHistogram_Observe cn result, UpdatedCounter_Inc result]"
    by (auto simp: tickShard_def split: option.splits)
  from tickShardBody_Return_None [OF body [unfolded res], of cn] tr
  obtain ea eb where gb: "getShardBoundaries cu atTime idx = Inr (ea, eb)"
    and st: "tr = successTrace env crlId cn atTime issuerNameID idx ea eb"
    by auto
  from id cn gb st successTrace_sent [of env crlId cn atTime issuerNameID idx ea eb]
  show ?thesis by auto
qed

text \<open>
  The scripted run with two entries and two chunks returns \<open>nil\<close>; the CA saw the
  metadata frame and the entries 11, 22, the storer the metadata frame and the chunks
  \<open>ab\<close>, \<open>cde\<close>, and the log reports 5 bytes and the hash of \<open>abcde\<close>.
\<close>

theorem pipeline_fidelity_witness:
  "tickShard exampleUpdater exampleEnv t2024 7 0 = (Return None, exampleTrace)
   \<and> ca_sent exampleTrace = [CA_Metadata 7 1704067200000000000 0, CA_Entry 11, CA_Entry 22]
   \<and> cs_sent exampleTrace =
       [CS_Metadata 7 1704067200000000000 0, CS_CrlChunk ''ab'', CS_CrlChunk ''cde'']
   \<and> logged exampleTrace = [(''crl-7'', 5, ''#abcde'')]"
proof -
  have run: "tickShard exampleUpdater exampleEnv t2024 7 0 = (Return None, exampleTrace)"
    by (rule tickShard_example)
  from pipeline_fidelity [OF run] have
    "ca_sent exampleTrace =
       CA_Metadata 7 (time_UnixNano t2024) 0 # map CA_Entry (sa_entries exampleEnv)"
    "cs_sent exampleTrace =
       CS_Metadata 7 (time_UnixNano t2024) 0 # map CS_CrlChunk (ca_chunks exampleEnv)"
    "\<exists>crlId. crl_Id exampleEnv 7 (time_UnixNano t2024) 0 = Inr crlId \<and>
       logged exampleTrace =
         [(crlId, sum_list (map length (ca_chunks exampleEnv)),
           sha256 exampleEnv (concat (ca_chunks exampleEnv)))]"
    by auto
  then show ?thesis
    using run by (auto simp: exampleEnv_def unixNano_example)
qed

text \<open>
  Claim C9 (empty revocation set). If the SA stream ends before it yields an entry and
  the other calls succeed, \<open>tickShard\<close> sends exactly one metadata frame to the CA,
  half-closes the CA stream, opens the storer stream, sends its metadata frame, relays
  whatever chunks the CA returns and returns \<open>nil\<close>; where the CA returns no chunk, the CRL
  reported has size 0.
\<close>

theorem empty_revocation_set:
  assumes "crl_Id env issuerNameID (time_UnixNano atTime) idx = Inr crlId"
    and "issuers cu issuerNameID = Some cn"
    and "getShardBoundaries cu atTime idx = Inr (expiresAfter, expiresBefore)"
    and "sa_connect env = None" and "sa_entries env = []" and "sa_end env = None"
    and "ca_connect env = None" and "ca_send env 0 = None" and "ca_close_send env = None"
    and "cs_connect env = None" and "\<forall>k \<le> length (ca_chunks env). cs_send env k = None"
    and "ca_end env = None" and "cs_close env = None"
  shows "tickShard cu env atTime issuerNameID idx =
           (Return None,
            [Log_Debugf idx issuerNameID atTime,
             SA_GetRevokedCerts issuerNameID (time_UnixNano expiresAfter)
               (time_UnixNano expiresBefore) (time_UnixNano atTime),
             CA_GenerateCRL,
             CA_Send (CA_Metadata issuerNameID (time_UnixNano atTime) idx),
             CA_CloseSend,
             CS_UploadCRL,
             CS_Send (CS_Metadata issuerNameID (time_UnixNano atTime) idx)]
            @ map (\<lambda>chunk. CS_Send (CS_CrlChunk chunk)) (ca_chunks env)
            @ [Log_Infof crlId (sum_list (map length (ca_chunks env)))
                 (sha256 env (concat (ca_chunks env))),
               CS_CloseAndRecv,
               TickHistogram_Observe cn ''success'',
               UpdatedCounter_Inc ''success''])
         \<and> (ca_chunks env = [] \<longrightarrow>
              logged (snd (tickShard cu env atTime issuerNameID idx)) =
                [(crlId, 0, sha256 env [])])"
proof -
  have sends: "\<forall>k \<le> length (sa_entries env). ca_send env k = None"
    using assms(5,8) by simp
  have run: "tickShard cu env atTime issuerNameID idx =
      (Return None, successTrace env crlId cn atTime issuerNameID idx expiresAfter expiresBefore)"
    by (rule tickShard_all_succeed [OF assms(1-4,7) sends assms(6,9-13)])
  have "logged (snd (tickShard cu env atTime issuerNameID idx)) = [(crlId, 0, sha256 env [])]"
    if "ca_chunks env = []"
    using that by (simp add: run successTrace_sent)
  then show ?thesis
    by (simp add: run successTrace_def assms(5))
qed

text \<open>
  The scripted run with no entry and no chunk: one metadata frame to the CA, the
  half-close, the storer stream with its metadata frame, a CRL of size 0 in the log, \<open>nil\<close>.
\<close>

theorem empty_revocation_set_witness:
  "tickShard exampleUpdater emptyEnv t2024 7 0 =
     (Return None,
      [Log_Debugf 0 7 t2024,
       SA_GetRevokedCerts 7 1707644923145224193 1708735579145224193 1704067200000000000,
       CA_GenerateCRL,
       CA_Send (CA_Metadata 7 1704067200000000000 0),
       CA_CloseSend,
       CS_UploadCRL,
       CS_Send (CS_Metadata 7 1704067200000000000 0),
       Log_Infof ''crl-7'' 0 ''#'',
       CS_CloseAndRecv,
       TickHistogram_Observe ''Test CA'' ''success'',
       UpdatedCounter_Inc ''success''])
   \<and> logged (snd (tickShard exampleUpdater emptyEnv t2024 7 0)) = [(''crl-7'', 0, ''#'')]"
proof -
  have h: "crl_Id emptyEnv 7 (time_UnixNano t2024) 0 = Inr ''crl-7''"
    "issuers exampleUpdater 7 = Some ''Test CA''"
    "sa_connect emptyEnv = None" "sa_entries emptyEnv = []" "sa_end emptyEnv = None"
    "ca_connect emptyEnv = None" "ca_send emptyEnv 0 = None" "ca_close_send emptyEnv = None"
    "cs_connect emptyEnv = None" "\<forall>k \<le> length (ca_chunks emptyEnv). cs_send emptyEnv k = None"
    "ca_end emptyEnv = None" "cs_close emptyEnv = None" "ca_chunks emptyEnv = []"
    "sha256 emptyEnv [] = ''#''"
    by (simp_all add: emptyEnv_def exampleEnv_def exampleUpdater_def)
  from empty_revocation_set [OF h(1,2) boundaries_example h(3-12)] h(13,14)
  show ?thesis by (simp add: unixNano_example)
qed

text \<open>
  Claim C10 (failure to derive the CRL id). If \<open>crl.Id\<close> fails, \<open>tickShard\<close> returns that
  error as it is, and its trace is empty: no stream to the SA, the CA or the storer is
  opened, and neither the histogram nor the counter is touched.
\<close>

theorem id_failure_no_effects:
  assumes "crl_Id env issuerNameID (time_UnixNano atTime) idx = Inl e"
  shows "tickShard cu env atTime issuerNameID idx = (Return (Some e), [])"
  using assms by (simp add: tickShard_def)

theorem id_failure_no_effects_witness:
  "crl_Id failingIdEnv 7 (time_UnixNano t2024) 0 = Inl (External ''bad shard index'')
   \<and> tickShard exampleUpdater failingIdEnv t2024 7 0 =
       (Return (Some (External ''bad shard index'')), [])"
proof -
  have h: "crl_Id failingIdEnv 7 (time_UnixNano t2024) 0 = Inl (External ''bad shard index'')"
    by (simp add: failingIdEnv_def exampleEnv_def)
  from id_failure_no_effects [OF h] h show ?thesis by simp
qed

section \<open>The issuer tick\<close>

lemma collectResults_find:
  "collectResults n ch =
     (case find (\<lambda>r. err r \<noteq> None) (take n ch) of
        Some r \<Rightarrow> Some (Some (Wrapped (''updating shard '' @ fmt_d (shardIdx r)) (the (err r))))
      | None \<Rightarrow> if n \<le> length ch then Some None else None)"
  by (induction n ch rule: collectResults.induct) (auto split: option.splits)

text \<open>
  Claim C8 (first-failure error surfacing). \<open>tickIssuer\<close> looks at the results in the
  order in which they arrive. If one of the first \<open>numShards\<close> results carries an error, it
  returns, at the first such result in that order, the error "updating shard <idx>: <cause>"
  with the index and the error of that result; if \<open>numShards\<close> results arrive and none
  carries an error, it returns \<open>nil\<close>. (If fewer arrive and none carries an error, it waits
  for ever.)
\<close>

theorem tickIssuer_first_failure:
  assumes "issuers cu issuerNameID = Some cn"
  shows "tickIssuer cu issuerNameID ch =
     (case find (\<lambda>r. err r \<noteq> None) (take (nat (numShards cu)) ch) of
        Some r \<Rightarrow>
          Some (Return (Some (Wrapped (''updating shard '' @ fmt_d (shardIdx r)) (the (err r)))),
                [TickHistogram_Observe (cn @ '' (Overall)'') ''failed''])
      | None \<Rightarrow>
          if nat (numShards cu) \<le> length ch
          then Some (Return None, [TickHistogram_Observe (cn @ '' (Overall)'') ''success''])
          else None)"
  using assms by (simp add: tickIssuer_def collectResults_find split: option.splits)

text \<open>
  Shard 2 succeeds, then shard 1 fails, then shard 0 fails: with three shards the error
  is that of shard 1, the first to arrive, not that of shard 0, the lowest index; it reads
  "updating shard 1: boom". With one shard only the first result is read, and the tick
  succeeds.
\<close>

theorem tickIssuer_first_failure_witness:
  "issuers (exampleUpdater \<lparr> numShards := 3 \<rparr>) 7 = Some ''Test CA''
   \<and> tickIssuer (exampleUpdater \<lparr> numShards := 3 \<rparr>) 7 exampleResults =
       Some (Return (Some (Wrapped ''updating shard 1'' (External ''boom''))),
             [TickHistogram_Observe ''Test CA (Overall)'' ''failed''])
   \<and> error_string (Wrapped ''updating shard 1'' (External ''boom'')) = ''updating shard 1: boom''
   \<and> tickIssuer (exampleUpdater \<lparr> numShards := 1 \<rparr>) 7 exampleResults =
       Some (Return None, [TickHistogram_Observe ''Test CA (Overall)'' ''success''])"
proof -
  have h: "issuers (exampleUpdater \<lparr> numShards := 3 \<rparr>) 7 = Some ''Test CA''"
    "issuers (exampleUpdater \<lparr> numShards := 1 \<rparr>) 7 = Some ''Test CA''"
    by (simp_all add: exampleUpdater_def)
  have d: "fmt_d 1 = ''1''" by (simp add: fmt_d_def digit_char_def)
  from tickIssuer_first_failure [OF h(1), of exampleResults]
       tickIssuer_first_failure [OF h(2), of exampleResults] h(1) d
  show ?thesis by (simp add: exampleResults_def numeral_3_eq_3)
qed

end
